theory Spec2Isabelle
  imports Complex_Main "HOL-Library.Monad_Syntax"
begin

section \<open>The audio dataset pipeline of \<^verbatim>\<open>audio_data_processor.py\<close>\<close>

text \<open>
  The theory embeds the class \<^verbatim>\<open>AudioDataProcessor\<close>: the loader
  (\<^verbatim>\<open>load_audio_file\<close>), the segmenter (\<^verbatim>\<open>load_and_process_audio\<close>), the
  domain batcher (\<^verbatim>\<open>process_domain_files\<close>) and the dataset assembler
  (\<^verbatim>\<open>create_dataset_splits\<close>).

  The code calls libraries that are not part of the repository (moviepy, librosa, numpy,
  soundfile, pathlib, os.path, datetime). What they return is the environment of a run
  and is a parameter of every definition: the record \<open>env\<close> below. Samples are of an
  arbitrary type \<open>'a\<close>, so that nothing proved here depends on floating-point
  arithmetic. Everything a call does besides returning (printing, opening a file,
  writing a file) is appended to a list of events.
\<close>

subsection \<open>Exceptions, arrays, events\<close>

text \<open>A Python exception, with the text that \<^verbatim>\<open>str(e)\<close> gives.\<close>

datatype error = Exception string

fun str :: "error \<Rightarrow> string" where
  "str (Exception msg) = msg"

text \<open>
  What \<^verbatim>\<open>to_soundarray\<close> returns: a one-dimensional array of samples, or a
  two-dimensional one with a row of channel values per frame.
\<close>

datatype 'a ndarray = Arr1 "'a list" | Arr2 "'a list list"

datatype 'a event =
    Print string
  | VideoFileClip_call string
  | Librosa_load_call string
  | Sf_write_call string "'a list" int
  | Mkdir_call string

subsection \<open>The environment\<close>

text \<open>
  \<^item> \<open>os_path_basename\<close>: \<^verbatim>\<open>os.path.basename\<close>;
  \<^item> \<open>path_suffix\<close>: \<^verbatim>\<open>Path(p).suffix\<close>;
  \<^item> \<open>path_join\<close>: the operator \<^verbatim>\<open>/\<close> of pathlib, read back with \<^verbatim>\<open>str\<close>;
  \<^item> \<open>video_file_clip p sr\<close>: opening the video \<open>p\<close> and reading its audio at rate
    \<open>sr\<close>: an exception, \<open>None\<close> when \<^verbatim>\<open>video.audio is None\<close>, or the array of
    \<^verbatim>\<open>to_soundarray\<close>;
  \<^item> \<open>np_mean_axis1\<close>: \<^verbatim>\<open>np.mean(a, axis=1)\<close>;
  \<^item> \<open>librosa_load p sr\<close>: \<^verbatim>\<open>librosa.load(p, sr=sr)\<close>, an exception or the buffer
    and its rate;
  \<^item> \<open>librosa_normalize a\<close>: \<^verbatim>\<open>librosa.util.normalize(a)\<close>. The library raises
    on a buffer with non-finite values and otherwise returns an array of the same shape,
    every sample rescaled by the peak of the whole buffer: the environment gives the
    exception or the rescaling of one sample;
  \<^item> \<open>np_mean\<close>, \<open>np_sub\<close>: \<^verbatim>\<open>np.mean(a)\<close> and the subtraction of two samples;
  \<^item> \<open>rms_energy a\<close>: the number \<^verbatim>\<open>np.sqrt(np.mean(a**2))\<close>, read as a real; a
    NaN, which compares false with every threshold, is any value below the threshold;
  \<^item> \<open>sf_write p a sr\<close>: \<^verbatim>\<open>sf.write(p, a, sr)\<close>, \<open>None\<close> when it returns and the
    exception when it raises;
  \<^item> \<open>now_isoformat p\<close>: the reading of \<^verbatim>\<open>datetime.datetime.now().isoformat()\<close>
    when the record of the source file \<open>p\<close> is created.
\<close>

record 'a env =
  os_path_basename :: "string \<Rightarrow> string"
  path_suffix :: "string \<Rightarrow> string"
  path_join :: "string \<Rightarrow> string \<Rightarrow> string"
  video_file_clip :: "string \<Rightarrow> int \<Rightarrow> error + 'a ndarray option"
  np_mean_axis1 :: "'a list list \<Rightarrow> 'a list"
  librosa_load :: "string \<Rightarrow> int \<Rightarrow> error + 'a list \<times> int"
  librosa_normalize :: "'a list \<Rightarrow> error + ('a \<Rightarrow> 'a)"
  np_mean :: "'a list \<Rightarrow> 'a"
  np_sub :: "'a \<Rightarrow> 'a \<Rightarrow> 'a"
  rms_energy :: "'a list \<Rightarrow> real"
  sf_write :: "string \<Rightarrow> 'a list \<Rightarrow> int \<Rightarrow> error option"
  now_isoformat :: "string \<Rightarrow> string"

subsection \<open>The processor object\<close>

text \<open>
  One entry of \<^verbatim>\<open>self.processed_files\<close>, the Processed-File Record of a source
  file.
\<close>

record file_record =
  full_path :: string
  processed_datetime :: string
  processed_filenames :: "string list"

text \<open>
  The attributes of \<^verbatim>\<open>AudioDataProcessor\<close>. The constructor computes
  \<open>target_samples\<close> and \<open>gap_samples\<close> as \<^verbatim>\<open>int(target_sr * duration)\<close> from
  floating-point durations; here they are given as the integers they are. Python
  integers are unbounded, hence \<open>int\<close>.
\<close>

record processor =
  target_sr :: int
  target_samples :: int
  gap_samples :: int
  calibration_samples :: int
  eval_samples :: int
  processed_files :: "string \<rightharpoonup> file_record"
  previously_processed_files :: "string set"

subsection \<open>Python strings and slices\<close>

text \<open>\<^verbatim>\<open>str.lower\<close> on ASCII letters.\<close>

definition lower_char :: "char \<Rightarrow> char" where
  "lower_char c =
     (case map_of (zip ''ABCDEFGHIJKLMNOPQRSTUVWXYZ'' ''abcdefghijklmnopqrstuvwxyz'') c of
        Some l \<Rightarrow> l
      | None \<Rightarrow> c)"

definition lower :: "string \<Rightarrow> string" where
  "lower s = map lower_char s"

text \<open>
  The slice \<^verbatim>\<open>a[i:j]\<close> of Python and numpy: a negative bound counts from the end,
  and both bounds are clipped to the array.
\<close>

definition slice_bound :: "int \<Rightarrow> int \<Rightarrow> int" where
  "slice_bound n i = (if i < 0 then max 0 (i + n) else min i n)"

definition py_slice :: "'a list \<Rightarrow> int \<Rightarrow> int \<Rightarrow> 'a list" where
  "py_slice a i j =
     (let n = int (length a); lo = slice_bound n i; hi = slice_bound n j
      in take (nat (hi - lo)) (drop (nat lo) a))"

text \<open>The decimal digits of a number, and the format \<^verbatim>\<open>{n:04d}\<close>.\<close>

definition digit_char :: "nat \<Rightarrow> char" where
  "digit_char d = ''0123456789'' ! d"

fun decimal :: "nat \<Rightarrow> string" where
  "decimal n = (if n < 10 then [digit_char n] else decimal (n div 10) @ [digit_char (n mod 10)])"

declare decimal.simps [simp del]

definition format_04d :: "nat \<Rightarrow> string" where
  "format_04d n = replicate (4 - length (decimal n)) (CHR ''0'') @ decimal n"

subsection \<open>The loader: \<^verbatim>\<open>load_audio_file\<close>\<close>

text \<open>
  The result is the events of the call and either the exception that the call raises or
  the pair it returns; \<open>(None, 0)\<close> is the result for a video without audio.
\<close>

definition load_audio_file ::
  "'a env \<Rightarrow> processor \<Rightarrow> string \<Rightarrow> 'a event list \<times> (error + 'a list option \<times> int)" where
  "load_audio_file env p file_path =
     (let file_ext = lower (path_suffix env file_path) in
      if file_ext = ''.mp4'' then
        (case video_file_clip env file_path (target_sr p) of
           Inl e \<Rightarrow>
             ([VideoFileClip_call file_path,
               Print (''Error loading '' @ file_path @ '': '' @ str e)], Inl e)
         | Inr None \<Rightarrow>
             ([VideoFileClip_call file_path,
               Print (''No audio stream in '' @ file_path)], Inr (None, 0))
         | Inr (Some audio_array) \<Rightarrow>
             ([VideoFileClip_call file_path],
              Inr (Some (case audio_array of
                           Arr1 a \<Rightarrow> a
                         | Arr2 rows \<Rightarrow> np_mean_axis1 env rows), target_sr p)))
      else
        (case librosa_load env file_path (target_sr p) of
           Inl e \<Rightarrow>
             ([Librosa_load_call file_path,
               Print (''Error loading '' @ file_path @ '': '' @ str e)], Inl e)
         | Inr (y, sr) \<Rightarrow> ([Librosa_load_call file_path], Inr (Some y, sr))))"

subsection \<open>The segmenter: \<^verbatim>\<open>load_and_process_audio\<close>\<close>

text \<open>
  The \<^verbatim>\<open>while\<close> loop of the segmenter. It advances by
  \<open>target_samples + gap_samples\<close>, which the constructor does not force to be positive,
  so the loop may run forever: the result \<open>None\<close> stands for a loop that does not
  return.
\<close>

partial_function (option) window_loop ::
  "'a env \<Rightarrow> int \<Rightarrow> int \<Rightarrow> 'a list \<Rightarrow> int \<Rightarrow> int \<Rightarrow> ('a list \<times> int) list
     \<Rightarrow> ('a list \<times> int) list option" where
  "window_loop env tgt gap audio sr current_pos segments =
     (if current_pos + tgt \<le> int (length audio) then
        (let segment = py_slice audio current_pos (current_pos + tgt);
             energy = rms_energy env segment
         in window_loop env tgt gap audio sr (current_pos + tgt + gap)
              (if energy \<ge> 0.01 then segments @ [(segment, sr)] else segments))
      else Some segments)"

definition load_and_process_audio ::
  "'a env \<Rightarrow> processor \<Rightarrow> string \<Rightarrow> string
     \<Rightarrow> ('a event list \<times> (error + ('a list \<times> int) list)) option" where
  "load_and_process_audio env p file_path set_type =
     (case load_audio_file env p file_path of
        (ev, Inl e) \<Rightarrow>
          Some (ev @ [Print (''Error processing '' @ file_path @ '': '' @ str e)], Inl e)
      | (ev, Inr (None, sr)) \<Rightarrow> Some (ev, Inr [])
      | (ev, Inr (Some audio, sr)) \<Rightarrow>
          if int (length audio) < target_samples p then
            (let energy = rms_energy env audio in
             if energy \<ge> 0.01 then Some (ev, Inr [(audio, sr)])
             else Some (ev @ [Print (''Skipping '' @ file_path
                               @ '': insufficient energy in short clip'')], Inr []))
          else
            (case librosa_normalize env audio of
               Inl e \<Rightarrow>
                 Some (ev @ [Print (''Error processing '' @ file_path @ '': '' @ str e)],
                       Inl e)
             | Inr rescale \<Rightarrow>
                 (let audio1 = map rescale audio;
                      audio2 = map (\<lambda>x. np_sub env x (np_mean env audio1)) audio1
                  in map_option (\<lambda>segments. (ev, Inr segments))
                       (window_loop env (target_samples p) (gap_samples p) audio2 sr 0 []))))"

subsection \<open>The domain batcher: \<^verbatim>\<open>process_domain_files\<close>\<close>

text \<open>The name \<^verbatim>\<open>f"{domain}_{n:04d}.wav"\<close> of the output file number \<open>n\<close>.\<close>

definition output_name :: "string \<Rightarrow> nat \<Rightarrow> string" where
  "output_name domain n = domain @ ''_'' @ format_04d n @ ''.wav''"

text \<open>
  The inner loop, over the segments of one source file. Its state is the list
  \<open>written\<close> of the paths written so far in this call (the local list
  \<^verbatim>\<open>processed_files\<close> of the source) and the list \<open>names\<close> of the names given to
  the segments of this file (\<^verbatim>\<open>processed_filenames_for_file\<close>). The loop stops when
  the quota is reached, and an exception of \<^verbatim>\<open>sf.write\<close> leaves it: the result is
  then the exception, with the list \<open>written\<close> as it was before the failed write.
\<close>

fun save_segments ::
  "'a env \<Rightarrow> string \<Rightarrow> string \<Rightarrow> int \<Rightarrow> ('a list \<times> int) list \<Rightarrow> string list \<Rightarrow> string list
     \<Rightarrow> 'a event list \<times> string list \<times> (error + string list)" where
  "save_segments env out_path domain target_count [] written names = ([], written, Inr names)"
| "save_segments env out_path domain target_count ((segment, sr) # rest) written names =
     (if int (length written) \<ge> target_count then ([], written, Inr names)
      else
        (let processed_filename = output_name domain (length written);
             output_file = path_join env out_path processed_filename
         in case sf_write env output_file segment sr of
              Some e \<Rightarrow> ([Sf_write_call output_file segment sr], written, Inl e)
            | None \<Rightarrow>
                (case save_segments env out_path domain target_count rest
                        (written @ [output_file]) (names @ [processed_filename]) of
                   (ev, written', r) \<Rightarrow> (Sf_write_call output_file segment sr # ev, written', r))))"

text \<open>
  The outer loop, over the candidate files. The state is the events so far, the list
  \<open>written\<close> and the dictionary \<^verbatim>\<open>self.processed_files\<close>. The three tests come in
  the order of the source: a file of a previous run is passed over, then the loop is
  left when the quota is reached, then a file that has a record in this run is passed
  over. An exception of the segmenter or of a write is caught, printed, and the loop goes
  on with the next file; only a file that raised nothing gets its record. The progress
  bar and its counter change nothing and are left out.
\<close>

fun process_files ::
  "'a env \<Rightarrow> processor \<Rightarrow> string \<Rightarrow> string \<Rightarrow> string \<Rightarrow> int \<Rightarrow> string list
     \<Rightarrow> 'a event list \<times> string list \<times> (string \<rightharpoonup> file_record)
     \<Rightarrow> ('a event list \<times> string list \<times> (string \<rightharpoonup> file_record)) option" where
  "process_files env p out_path domain set_type target_count [] st = Some st"
| "process_files env p out_path domain set_type target_count (file_path # rest) (ev, written, recs) =
     (let filename = os_path_basename env file_path in
      if filename \<in> previously_processed_files p then
        process_files env p out_path domain set_type target_count rest (ev, written, recs)
      else if int (length written) \<ge> target_count then Some (ev, written, recs)
      else if filename \<in> dom recs then
        process_files env p out_path domain set_type target_count rest (ev, written, recs)
      else
        (case load_and_process_audio env p file_path set_type of
           None \<Rightarrow> None
         | Some (ev1, Inl e) \<Rightarrow>
             process_files env p out_path domain set_type target_count rest
               (ev @ ev1 @ [Print (''Error processing '' @ file_path @ '': '' @ str e)],
                written, recs)
         | Some (ev1, Inr segments) \<Rightarrow>
             (case save_segments env out_path domain target_count segments written [] of
                (ev2, written', Inl e) \<Rightarrow>
                  process_files env p out_path domain set_type target_count rest
                    (ev @ ev1 @ ev2
                       @ [Print (''Error processing '' @ file_path @ '': '' @ str e)],
                     written', recs)
              | (ev2, written', Inr names) \<Rightarrow>
                  process_files env p out_path domain set_type target_count rest
                    (ev @ ev1 @ ev2, written',
                     recs(filename \<mapsto>
                       \<lparr>full_path = file_path,
                        processed_datetime = now_isoformat env file_path,
                        processed_filenames = names\<rparr>)))))"

definition target_count_of :: "processor \<Rightarrow> string \<Rightarrow> int" where
  "target_count_of p set_type =
     (if set_type = ''calibration'' then calibration_samples p else eval_samples p)"

definition out_path_of :: "'a env \<Rightarrow> string \<Rightarrow> string \<Rightarrow> string \<Rightarrow> string" where
  "out_path_of env output_dir set_type domain =
     path_join env (path_join env output_dir set_type) domain"

text \<open>
  The call returns the events, the dictionary with the one key
  \<^verbatim>\<open>f"{domain}_{set_type}"\<close>, and the processor with its updated
  \<^verbatim>\<open>processed_files\<close>. Creating the output directory is taken to succeed (an
  exception there is caught nowhere and ends the run).
\<close>

definition process_domain_files ::
  "'a env \<Rightarrow> processor \<Rightarrow> string list \<Rightarrow> string \<Rightarrow> string \<Rightarrow> string
     \<Rightarrow> ('a event list \<times> (string \<rightharpoonup> string list) \<times> processor) option" where
  "process_domain_files env p files output_dir domain set_type =
     (let target_count = target_count_of p set_type;
          out_path = out_path_of env output_dir set_type domain
      in case process_files env p out_path domain set_type target_count files
                ([Mkdir_call out_path], [], processed_files p) of
           None \<Rightarrow> None
         | Some (ev, written, recs) \<Rightarrow>
             Some (ev, [domain @ ''_'' @ set_type \<mapsto> written],
                   p\<lparr>processed_files := recs\<rparr>))"

subsection \<open>The dataset assembler: \<^verbatim>\<open>create_dataset_splits\<close>\<close>

text \<open>
  One \<^verbatim>\<open>for domain, files in [...]\<close> loop of the assembler: the batcher is run on
  each domain in turn and its dictionary is merged into \<^verbatim>\<open>dataset_splits\<close>.
\<close>

fun process_domains ::
  "'a env \<Rightarrow> string \<Rightarrow> string \<Rightarrow> (string \<times> string list) list
     \<Rightarrow> 'a event list \<times> (string \<rightharpoonup> string list) \<times> processor
     \<Rightarrow> ('a event list \<times> (string \<rightharpoonup> string list) \<times> processor) option" where
  "process_domains env output_dir set_type [] st = Some st"
| "process_domains env output_dir set_type ((domain, files) # rest) (ev, dataset_splits, p) =
     (case process_domain_files env p files output_dir domain set_type of
        None \<Rightarrow> None
      | Some (ev1, split_files, p1) \<Rightarrow>
          process_domains env output_dir set_type rest
            (ev @ ev1, dataset_splits ++ split_files, p1))"

text \<open>
  The calibration pass, then the evaluation pass, on the same three lists. The
  attributes \<^verbatim>\<open>segment_stats\<close> and \<^verbatim>\<open>processed_segments\<close> that the source resets
  here are read nowhere in the repository and are not part of the state;
  \<^verbatim>\<open>self.processed_files\<close> is not reset.
\<close>

definition create_dataset_splits ::
  "'a env \<Rightarrow> processor \<Rightarrow> string list \<Rightarrow> string list \<Rightarrow> string list \<Rightarrow> string
     \<Rightarrow> ('a event list \<times> (string \<rightharpoonup> string list) \<times> processor) option" where
  "create_dataset_splits env p speech_files music_files env_files output_dir =
     (case process_domains env output_dir ''calibration''
             [(''speech'', speech_files), (''music'', music_files),
              (''environmental'', env_files)] ([], Map.empty, p) of
        None \<Rightarrow> None
      | Some st \<Rightarrow>
          process_domains env output_dir ''evaluation''
            [(''speech'', speech_files), (''music'', music_files),
             (''environmental'', env_files)] st)"

subsection \<open>The windows of a long buffer, in closed form\<close>

text \<open>
  The offsets at which a buffer of length \<open>len\<close> is cut: \<open>0\<close>, then every
  \<open>tgt + gap\<close> samples, \<open>\<lfloor>(len - tgt) / (tgt + gap)\<rfloor> + 1\<close> of them. The
  windows that are kept are those whose energy reaches the threshold.
\<close>

definition window_starts :: "int \<Rightarrow> int \<Rightarrow> int \<Rightarrow> int list" where
  "window_starts tgt gap len =
     map (\<lambda>k. int k * (tgt + gap)) [0..<nat ((len - tgt) div (tgt + gap)) + 1]"

definition keep_windows ::
  "'a env \<Rightarrow> int \<Rightarrow> 'a list \<Rightarrow> int \<Rightarrow> int list \<Rightarrow> ('a list \<times> int) list" where
  "keep_windows env tgt audio sr starts =
     map (\<lambda>pos. (py_slice audio pos (pos + tgt), sr))
       (filter (\<lambda>pos. rms_energy env (py_slice audio pos (pos + tgt)) \<ge> 0.01) starts)"

text \<open>The number of windows that the loop still cuts when it stands at \<open>pos\<close>.\<close>

definition window_count :: "int \<Rightarrow> int \<Rightarrow> int \<Rightarrow> int \<Rightarrow> nat" where
  "window_count tgt gap len pos =
     (if pos + tgt \<le> len then nat ((len - tgt - pos) div (tgt + gap)) + 1 else 0)"

text \<open>The buffer after normalisation and removal of the mean.\<close>

definition preprocessed :: "'a env \<Rightarrow> ('a \<Rightarrow> 'a) \<Rightarrow> 'a list \<Rightarrow> 'a list" where
  "preprocessed env rescale audio =
     (let audio1 = map rescale audio
      in map (\<lambda>x. np_sub env x (np_mean env audio1)) audio1)"

text \<open>Reading a decimal numeral back, to tell output names apart.\<close>

definition digit_val :: "char \<Rightarrow> nat" where
  "digit_val c = of_char c - 48"

definition undecimal :: "string \<Rightarrow> nat" where
  "undecimal s = foldl (\<lambda>a c. 10 * a + digit_val c) 0 s"

text \<open>The paths that one call of the batcher writes, when it writes \<open>n\<close> files.\<close>

definition numbered_outputs :: "'a env \<Rightarrow> string \<Rightarrow> string \<Rightarrow> nat \<Rightarrow> string list" where
  "numbered_outputs env out_path domain n =
     map (\<lambda>i. path_join env out_path (output_name domain i)) [0..<n]"

text \<open>The files of a list that have no record in the processor's dictionary.\<close>

definition unrecorded :: "'a env \<Rightarrow> processor \<Rightarrow> string list \<Rightarrow> string list" where
  "unrecorded env p files =
     filter (\<lambda>f. os_path_basename env f \<notin> dom (processed_files p)) files"

subsection \<open>An environment to run the definitions on\<close>

text \<open>
  POSIX paths, samples that are real numbers, and a disk that is a table from paths to
  buffers; every video is without audio and every write succeeds.
\<close>

definition posix_basename :: "string \<Rightarrow> string" where
  "posix_basename path = rev (takeWhile (\<lambda>c. c \<noteq> CHR ''/'') (rev path))"

definition posix_suffix :: "string \<Rightarrow> string" where
  "posix_suffix path =
     (let name = posix_basename path;
          ext = rev (takeWhile (\<lambda>c. c \<noteq> CHR ''.'') (rev name))
      in if CHR ''.'' \<in> set name \<and> ext \<noteq> [] \<and> length ext + 1 < length name
         then CHR ''.'' # ext else [])"

definition posix_join :: "string \<Rightarrow> string \<Rightarrow> string" where
  "posix_join a b = a @ ''/'' @ b"

definition peak :: "real list \<Rightarrow> real" where
  "peak a = fold (\<lambda>x m. max \<bar>x\<bar> m) a 0"

definition mean :: "real list \<Rightarrow> real" where
  "mean a = sum_list a / real (length a)"

definition rms :: "real list \<Rightarrow> real" where
  "rms a = sqrt (mean (map (\<lambda>x. x * x) a))"

definition demo_env :: "(string \<rightharpoonup> real list) \<Rightarrow> real env" where
  "demo_env disk =
     \<lparr>os_path_basename = posix_basename,
      path_suffix = posix_suffix,
      path_join = posix_join,
      video_file_clip = (\<lambda>path sr. Inr None),
      np_mean_axis1 = map mean,
      librosa_load = (\<lambda>path sr. case disk path of
                        None \<Rightarrow> Inl (Exception ''No such file'')
                      | Some a \<Rightarrow> Inr (a, sr)),
      librosa_normalize = (\<lambda>a. Inr (\<lambda>x. if peak a = 0 then x else x / peak a)),
      np_mean = mean,
      np_sub = (\<lambda>x y. x - y),
      rms_energy = rms,
      sf_write = (\<lambda>path a sr. None),
      now_isoformat = (\<lambda>path. ''2024-12-01T10:00:00'')\<rparr>"

definition demo_processor :: "int \<Rightarrow> int \<Rightarrow> int \<Rightarrow> int \<Rightarrow> processor" where
  "demo_processor tgt gap cal evl =
     \<lparr>target_sr = 44100, target_samples = tgt, gap_samples = gap,
      calibration_samples = cal, eval_samples = evl,
      processed_files = Map.empty, previously_processed_files = {}\<rparr>"

section \<open>Properties\<close>

subsection \<open>The window loop\<close>

lemma window_count_step:
  assumes "0 < tgt + gap" "pos + tgt \<le> len"
  shows "window_count tgt gap len pos = Suc (window_count tgt gap len (pos + tgt + gap))"
proof -
  let ?s = "tgt + gap"
  let ?d = "len - tgt - pos"
  have d0: "0 \<le> ?d" using assms by simp
  have eq: "(?d - ?s) div ?s = ?d div ?s - 1"
  proof -
    have "?d - ?s = ?d + ?s * (- 1)" by simp
    then have "(?d - ?s) div ?s = (?d + ?s * (- 1)) div ?s" by simp
    also have "\<dots> = - 1 + ?d div ?s"
      using assms(1) by (subst div_mult_self2) simp_all
    finally show ?thesis by simp
  qed
  show ?thesis
  proof (cases "pos + tgt + gap + tgt \<le> len")
    case True
    then have sd: "?s \<le> ?d" by simp
    have "?s div ?s \<le> ?d div ?s" using sd assms(1) by (rule zdiv_mono1)
    then have "1 \<le> ?d div ?s" using assms(1) by simp
    moreover have "len - tgt - (pos + tgt + gap) = ?d - ?s" by simp
    ultimately show ?thesis using assms True eq
      by (simp add: window_count_def nat_diff_distrib)
  next
    case False
    then have "?d < ?s" by simp
    then have "?d div ?s = 0" using d0 by simp
    then show ?thesis using assms False by (simp add: window_count_def)
  qed
qed

lemma window_loop_closed:
  assumes "0 < tgt + gap"
  shows "window_count tgt gap (int (length audio)) pos = n \<Longrightarrow>
         window_loop env tgt gap audio sr pos segments =
           Some (segments @ keep_windows env tgt audio sr
                   (map (\<lambda>k. pos + int k * (tgt + gap)) [0..<n]))"
proof (induction n arbitrary: pos segments)
  case 0
  then have "\<not> pos + tgt \<le> int (length audio)"
    by (simp add: window_count_def split: if_splits)
  then show ?case
    by (subst window_loop.simps) (simp add: keep_windows_def)
next
  case (Suc n)
  then have le: "pos + tgt \<le> int (length audio)"
    by (simp add: window_count_def split: if_splits)
  from window_count_step [OF assms le] Suc.prems
  have cnt: "window_count tgt gap (int (length audio)) (pos + tgt + gap) = n" by simp
  have shift: "map (\<lambda>k. pos + int k * (tgt + gap)) [0..<Suc n] =
        pos # map (\<lambda>k. (pos + tgt + gap) + int k * (tgt + gap)) [0..<n]"
    by (simp only: map_upt_Suc) (simp add: algebra_simps)
  show ?case
    apply (subst window_loop.simps)
    apply (simp only: shift)
    apply (simp add: le Let_def Suc.IH [OF cnt] keep_windows_def)
    done
qed

lemma window_loop_from_start:
  assumes "0 < tgt + gap" "tgt \<le> int (length audio)"
  shows "window_loop env tgt gap audio sr 0 [] =
           Some (keep_windows env tgt audio sr (window_starts tgt gap (int (length audio))))"
proof -
  have "window_count tgt gap (int (length audio)) 0
          = nat ((int (length audio) - tgt) div (tgt + gap)) + 1"
    using assms(2) by (simp add: window_count_def)
  from window_loop_closed [OF assms(1) this, of env sr "[]"]
  show ?thesis by (simp add: window_starts_def)
qed

lemma window_loop_returns:
  assumes "0 < tgt + gap"
  shows "\<exists>segs. window_loop env tgt gap audio sr pos segments = Some segs"
  using window_loop_closed [OF assms refl] by blast

lemma segmenter_returns:
  assumes "0 < target_samples p + gap_samples p"
  shows "\<exists>r. load_and_process_audio env p file_path set_type = Some r"
proof -
  obtain ev r where l: "load_audio_file env p file_path = (ev, r)"
    by (cases "load_audio_file env p file_path")
  have w: "\<And>a sr. \<exists>segs. window_loop env (target_samples p) (gap_samples p) a sr 0 []
             = Some segs"
    using window_loop_returns [OF assms] by blast
  show ?thesis
  proof (cases r)
    case (Inl e)
    with l show ?thesis by (simp add: load_and_process_audio_def)
  next
    case (Inr ar)
    obtain ao sr where ar: "ar = (ao, sr)" by (cases ar)
    show ?thesis
    proof (cases ao)
      case None
      with l Inr ar show ?thesis by (simp add: load_and_process_audio_def)
    next
      case (Some audio)
      show ?thesis
      proof (cases "librosa_normalize env audio")
        case (Inl e)
        with l Inr ar Some show ?thesis
          by (simp add: load_and_process_audio_def Let_def)
      next
        case (Inr rescale)
        from w obtain segs where
          "window_loop env (target_samples p) (gap_samples p)
             (map (\<lambda>x. np_sub env x (np_mean env (map rescale audio))) (map rescale audio))
             sr 0 [] = Some segs" by blast
        with l \<open>r = Inr ar\<close> ar Some Inr show ?thesis
          by (simp add: load_and_process_audio_def Let_def)
      qed
    qed
  qed
qed

subsection \<open>Evaluating the demo environment\<close>

lemma demo_load:
  "disk path = Some a \<Longrightarrow> lower (posix_suffix path) \<noteq> ''.mp4'' \<Longrightarrow>
   load_audio_file (demo_env disk) p path = ([Librosa_load_call path], Inr (Some a, target_sr p))"
  by (simp add: load_audio_file_def demo_env_def)

lemma suffix_wav [simp]: "lower (posix_suffix ''raw/a.wav'') = ''.wav''"
  by (simp add: posix_suffix_def posix_basename_def lower_def lower_char_def)

lemma demo_starts: "window_starts 2 1 5 = [0, 3]"
  by (simp add: window_starts_def upt_rec)

lemma demo_pre: "preprocessed (demo_env disk) (\<lambda>x. if peak [3, - 3, 0, 0, 0] = 0 then x else x / peak [3, - 3, 0, 0, 0]) [3, -3, 0, 0, 0] = [1, -1, 0, 0, 0]"
  by (simp add: preprocessed_def demo_env_def peak_def mean_def Let_def)

lemma demo_keep: "keep_windows (demo_env disk) 2 [1, -1, 0, 0, 0] 44100 [0, 3] = [([1, -1], 44100)]"
  by (simp add: keep_windows_def demo_env_def py_slice_def slice_bound_def rms_def mean_def Let_def)

subsection \<open>The loops of the batcher\<close>

lemma numbered_outputs_Suc:
  "numbered_outputs env out d (Suc n) =
     numbered_outputs env out d n @ [path_join env out (output_name d n)]"
  by (simp add: numbered_outputs_def)

lemma length_numbered_outputs [simp]: "length (numbered_outputs env out d n) = n"
  by (simp add: numbered_outputs_def)

lemma save_segments_numbered:
  "save_segments env out d t segs written names = (ev, written', r) \<Longrightarrow>
   written = numbered_outputs env out d (length written) \<Longrightarrow>
   written' = numbered_outputs env out d (length written')"
proof (induction segs arbitrary: written names ev written' r)
  case Nil
  then show ?case by simp
next
  case (Cons a segs)
  obtain segment sr where a: "a = (segment, sr)" by (cases a)
  let ?f = "path_join env out (output_name d (length written))"
  show ?case
  proof (cases "t \<le> int (length written)")
    case True
    with Cons.prems a show ?thesis by simp
  next
    case False
    show ?thesis
    proof (cases "sf_write env ?f segment sr")
      case (Some e)
      with Cons.prems a False show ?thesis by (simp add: Let_def)
    next
      case None
      obtain ev1 w1 r1 where rec:
        "save_segments env out d t segs (written @ [?f]) (names @ [output_name d (length written)])
           = (ev1, w1, r1)" by (metis prod_cases3)
      have w: "written' = w1" using Cons.prems(1) a False None rec by (simp add: Let_def)
      have "written @ [?f] = numbered_outputs env out d (length (written @ [?f]))"
        using Cons.prems(2) by (simp add: numbered_outputs_Suc)
      from Cons.IH [OF rec this] w show ?thesis by simp
    qed
  qed
qed

lemma save_segments_quota:
  "save_segments env out d t segs written names = (ev, written', r) \<Longrightarrow>
   int (length written) \<le> t \<Longrightarrow> int (length written') \<le> t"
proof (induction segs arbitrary: written names ev written' r)
  case Nil
  then show ?case by simp
next
  case (Cons a segs)
  obtain segment sr where a: "a = (segment, sr)" by (cases a)
  let ?f = "path_join env out (output_name d (length written))"
  show ?case
  proof (cases "t \<le> int (length written)")
    case True
    with Cons.prems a show ?thesis by simp
  next
    case False
    show ?thesis
    proof (cases "sf_write env ?f segment sr")
      case (Some e)
      with Cons.prems a False show ?thesis by (simp add: Let_def)
    next
      case None
      obtain ev1 w1 r1 where rec:
        "save_segments env out d t segs (written @ [?f]) (names @ [output_name d (length written)])
           = (ev1, w1, r1)" by (metis prod_cases3)
      have w: "written' = w1" using Cons.prems(1) a False None rec by (simp add: Let_def)
      have "int (length (written @ [?f])) \<le> t" using False by simp
      from Cons.IH [OF rec this] w show ?thesis by simp
    qed
  qed
qed

lemma process_files_quota_reached:
  "t \<le> int (length written) \<Longrightarrow>
   process_files env p out d st t files (ev, written, recs) = Some (ev, written, recs)"
  by (induction files) (simp_all add: Let_def)

lemma process_files_returns:
  assumes "0 < target_samples p + gap_samples p"
  shows "\<exists>s. process_files env p out d st t files (ev, written, recs) = Some s"
proof (induction files arbitrary: ev written recs)
  case Nil
  then show ?case by simp
next
  case (Cons f files)
  obtain ev1 r where l: "load_and_process_audio env p f st = Some (ev1, r)"
    using segmenter_returns [OF assms, of env f st] by (metis surj_pair)
  show ?case
  proof (cases r)
    case (Inl e)
    with l Cons.IH show ?thesis by (simp add: Let_def)
  next
    case (Inr segments)
    obtain ev2 w2 r2 where s: "save_segments env out d t segments written [] = (ev2, w2, r2)"
      by (metis prod_cases3)
    show ?thesis
      using l Inr s Cons.IH by (cases r2) (simp_all add: Let_def)
  qed
qed


lemma process_files_written_invariant:
  assumes step: "\<And>segs w names ev w' r.
     save_segments env out d t segs w names = (ev, w', r) \<Longrightarrow> P w \<Longrightarrow> P w'"
  shows "process_files env p out d st t files (ev, written, recs) = Some (ev', written', recs')
     \<Longrightarrow> P written \<Longrightarrow> P written'"
proof (induction files arbitrary: ev written recs)
  case Nil
  then show ?case by simp
next
  case (Cons f files)
  let ?b = "os_path_basename env f"
  consider (skip) "?b \<in> previously_processed_files p \<or>
                   (\<not> t \<le> int (length written) \<and> ?b \<in> dom recs)"
    | (full) "?b \<notin> previously_processed_files p" "t \<le> int (length written)"
    | (load) "?b \<notin> previously_processed_files p" "\<not> t \<le> int (length written)"
             "?b \<notin> dom recs"
    by blast
  then show ?case
  proof cases
    case skip
    then have "process_files env p out d st t files (ev, written, recs)
                 = Some (ev', written', recs')"
      using Cons.prems(1) by (auto simp: Let_def domIff split: if_splits)
    from Cons.IH [OF this Cons.prems(2)] show ?thesis .
  next
    case full
    then show ?thesis using Cons.prems by (simp add: Let_def)
  next
    case load
    show ?thesis
    proof (cases "load_and_process_audio env p f st")
      case None
      with load Cons.prems(1) show ?thesis by (simp add: Let_def)
    next
      case (Some a)
      obtain ev1 r where a: "a = (ev1, r)" by (cases a)
      show ?thesis
      proof (cases r)
        case (Inl e)
        with load Some a Cons.prems(1) Cons.IH [OF _ Cons.prems(2)] show ?thesis
          by (simp add: Let_def)
      next
        case (Inr segments)
        obtain ev2 w2 r2 where s:
          "save_segments env out d t segments written [] = (ev2, w2, r2)"
          by (metis prod_cases3)
        from step [OF s Cons.prems(2)] have P2: "P w2" .
        show ?thesis
          using load Some a Inr s Cons.prems(1) Cons.IH [OF _ P2]
          by (cases r2) (simp_all add: Let_def)
      qed
    qed
  qed
qed

lemma process_files_quota:
  "process_files env p out d st t files (ev, written, recs) = Some (ev', written', recs')
     \<Longrightarrow> int (length written) \<le> t \<Longrightarrow> int (length written') \<le> t"
  by (rule process_files_written_invariant [where P = "\<lambda>w. int (length w) \<le> t"])
     (auto dest: save_segments_quota)

lemma process_files_numbered:
  "process_files env p out d st t files (ev, written, recs) = Some (ev', written', recs')
     \<Longrightarrow> written = numbered_outputs env out d (length written)
     \<Longrightarrow> written' = numbered_outputs env out d (length written')"
  by (rule process_files_written_invariant
        [where P = "\<lambda>w. w = numbered_outputs env out d (length w)"])
     (auto dest: save_segments_numbered)

lemma process_files_filter_previous:
  "process_files env p out d st t files (ev, written, recs) =
   process_files env p out d st t
     (filter (\<lambda>f. os_path_basename env f \<notin> previously_processed_files p) files)
     (ev, written, recs)"
  by (induction files arbitrary: ev written recs)
     (auto simp: Let_def split: option.splits sum.splits prod.splits)

lemma process_files_filter_recorded:
  "R \<subseteq> dom recs \<Longrightarrow>
   process_files env p out d st t files (ev, written, recs) =
   process_files env p out d st t (filter (\<lambda>f. os_path_basename env f \<notin> R) files)
     (ev, written, recs)"
proof (induction files arbitrary: ev written recs)
  case Nil
  then show ?case by simp
next
  case (Cons f files)
  let ?b = "os_path_basename env f"
  show ?case
  proof (cases "?b \<in> R")
    case True
    then have d: "?b \<in> dom recs" using Cons.prems by blast
    show ?thesis
    proof (cases "t \<le> int (length written)")
      case True
      show ?thesis
        by (simp only: process_files_quota_reached [OF True])
    next
      case False
      with \<open>?b \<in> R\<close> d Cons.IH [OF Cons.prems] show ?thesis
        by (simp add: Let_def)
    qed
  next
    case False
    have ih1: "\<And>ev written. process_files env p out d st t files (ev, written, recs) =
        process_files env p out d st t (filter (\<lambda>f. os_path_basename env f \<notin> R) files)
          (ev, written, recs)"
      by (rule Cons.IH) (rule Cons.prems)
    have ih2: "\<And>ev written v.
        process_files env p out d st t files (ev, written, recs(?b \<mapsto> v)) =
        process_files env p out d st t (filter (\<lambda>f. os_path_basename env f \<notin> R) files)
          (ev, written, recs(?b \<mapsto> v))"
      by (rule Cons.IH) (use Cons.prems in auto)
    show ?thesis
      using False
      by (simp add: Let_def ih1 ih2 split: option.splits sum.splits prod.splits)
  qed
qed

subsection \<open>The segmenter\<close>

text \<open>
  Claim C5. A buffer shorter than \<open>target_samples\<close> is not preprocessed and not cut:
  when the energy of the raw buffer is at least \<open>0.01\<close> the segmenter returns the one
  segment that is the whole buffer, with its rate, and when the energy is below
  \<open>0.01\<close> it prints that the clip is skipped and returns no segment.
\<close>

theorem short_buffer_whole_or_nothing:
  assumes "load_audio_file env p file_path = (ev, Inr (Some audio, sr))"
    and "int (length audio) < target_samples p"
  shows "(rms_energy env audio \<ge> 0.01 \<longrightarrow>
            load_and_process_audio env p file_path set_type = Some (ev, Inr [(audio, sr)]))
       \<and> (rms_energy env audio < 0.01 \<longrightarrow>
            load_and_process_audio env p file_path set_type =
              Some (ev @ [Print (''Skipping '' @ file_path
                           @ '': insufficient energy in short clip'')], Inr []))"
  using assms by (simp add: load_and_process_audio_def Let_def)

theorem short_buffer_whole_or_nothing_witness:
  "load_and_process_audio (demo_env [''raw/a.wav'' \<mapsto> [1, -1]]) (demo_processor 3 1 2 2)
      ''raw/a.wav'' ''calibration''
     = Some ([Librosa_load_call ''raw/a.wav''], Inr [([1, -1], 44100)])
   \<and> load_and_process_audio (demo_env [''raw/a.wav'' \<mapsto> [0, 0]]) (demo_processor 3 1 2 2)
      ''raw/a.wav'' ''calibration''
     = Some ([Librosa_load_call ''raw/a.wav'',
              Print ''Skipping raw/a.wav: insufficient energy in short clip''], Inr [])"
proof -
  let ?p = "demo_processor 3 1 2 2"
  have l1: "load_audio_file (demo_env [''raw/a.wav'' \<mapsto> [1, -1]]) ?p ''raw/a.wav''
      = ([Librosa_load_call ''raw/a.wav''], Inr (Some [1, -1], 44100))"
    by (simp add: demo_load demo_processor_def)
  have l2: "load_audio_file (demo_env [''raw/a.wav'' \<mapsto> [0, 0]]) ?p ''raw/a.wav''
      = ([Librosa_load_call ''raw/a.wav''], Inr (Some [0, 0], 44100))"
    by (simp add: demo_load demo_processor_def)
  have s: "int (length [1, -1 :: real]) < target_samples ?p"
          "int (length [0, 0 :: real]) < target_samples ?p"
    by (simp_all add: demo_processor_def)
  have e1: "rms_energy (demo_env [''raw/a.wav'' \<mapsto> [1, -1]]) [1, -1] \<ge> 0.01"
    by (simp add: demo_env_def rms_def mean_def)
  have e2: "rms_energy (demo_env [''raw/a.wav'' \<mapsto> [0, 0]]) [0, 0] < 0.01"
    by (simp add: demo_env_def rms_def mean_def)
  show ?thesis
    using short_buffer_whole_or_nothing [OF l1 s(1), of "''calibration''"]
          short_buffer_whole_or_nothing [OF l2 s(2), of "''calibration''"] e1 e2
    by simp
qed

text \<open>
  Claim C4. For a buffer of length \<open>L \<ge> target_samples\<close>, with a positive advance
  \<open>target_samples + gap_samples\<close> and a normalisation that returns, the segmenter
  rescales the buffer, subtracts its mean, and returns the windows of the preprocessed
  buffer at the offsets \<open>0\<close>, \<open>target_samples + gap_samples\<close>, ... whose energy is at
  least \<open>0.01\<close>, in order. There are \<open>\<lfloor>(L - target_samples) / (target_samples +
  gap_samples)\<rfloor> + 1\<close> offsets, and no more segments than offsets.
\<close>

theorem long_buffer_window_attempts:
  assumes "load_audio_file env p file_path = (ev, Inr (Some audio, sr))"
    and "target_samples p \<le> int (length audio)"
    and "0 < target_samples p + gap_samples p"
    and "librosa_normalize env audio = Inr rescale"
  shows "load_and_process_audio env p file_path set_type =
           Some (ev, Inr (keep_windows env (target_samples p) (preprocessed env rescale audio) sr
                   (window_starts (target_samples p) (gap_samples p) (int (length audio)))))
       \<and> length (window_starts (target_samples p) (gap_samples p) (int (length audio))) =
           nat ((int (length audio) - target_samples p)
                  div (target_samples p + gap_samples p)) + 1
       \<and> length (keep_windows env (target_samples p) (preprocessed env rescale audio) sr
                   (window_starts (target_samples p) (gap_samples p) (int (length audio))))
           \<le> length (window_starts (target_samples p) (gap_samples p) (int (length audio)))"
proof -
  have len: "length (preprocessed env rescale audio) = length audio"
    by (simp add: preprocessed_def Let_def)
  have "window_loop env (target_samples p) (gap_samples p) (preprocessed env rescale audio) sr 0 []
      = Some (keep_windows env (target_samples p) (preprocessed env rescale audio) sr
          (window_starts (target_samples p) (gap_samples p) (int (length audio))))"
    using window_loop_from_start [of "target_samples p" "gap_samples p"
            "preprocessed env rescale audio" env sr] assms(2,3) len by simp
  then have "load_and_process_audio env p file_path set_type =
           Some (ev, Inr (keep_windows env (target_samples p) (preprocessed env rescale audio) sr
                   (window_starts (target_samples p) (gap_samples p) (int (length audio)))))"
    using assms(1,2,4) by (simp add: load_and_process_audio_def Let_def preprocessed_def)
  moreover have "length (window_starts (target_samples p) (gap_samples p) (int (length audio))) =
           nat ((int (length audio) - target_samples p)
                  div (target_samples p + gap_samples p)) + 1"
    by (simp add: window_starts_def)
  moreover have "length (keep_windows env (target_samples p) (preprocessed env rescale audio) sr
                   (window_starts (target_samples p) (gap_samples p) (int (length audio))))
           \<le> length (window_starts (target_samples p) (gap_samples p) (int (length audio)))"
    by (simp add: keep_windows_def)
  ultimately show ?thesis by blast
qed

theorem long_buffer_window_attempts_witness:
  "load_and_process_audio (demo_env [''raw/a.wav'' \<mapsto> [3, -3, 0, 0, 0]])
      (demo_processor 2 1 2 2) ''raw/a.wav'' ''calibration''
     = Some ([Librosa_load_call ''raw/a.wav''], Inr [([1, -1], 44100)])
   \<and> length (window_starts 2 1 5) = 2"
proof -
  let ?disk = "[''raw/a.wav'' \<mapsto> [3, -3, 0, 0, 0 :: real]]"
  let ?p = "demo_processor 2 1 2 2"
  have l: "load_audio_file (demo_env ?disk) ?p ''raw/a.wav''
      = ([Librosa_load_call ''raw/a.wav''], Inr (Some [3, -3, 0, 0, 0], 44100))"
    by (simp add: demo_load demo_processor_def)
  have s: "target_samples ?p \<le> int (length [3, -3, 0, 0, 0 :: real])"
    by (simp add: demo_processor_def)
  have g: "0 < target_samples ?p + gap_samples ?p"
    by (simp add: demo_processor_def)
  have n: "librosa_normalize (demo_env ?disk) [3, -3, 0, 0, 0]
      = Inr (\<lambda>x. if peak [3, - 3, 0, 0, 0] = 0 then x else x / peak [3, - 3, 0, 0, 0])"
    by (simp add: demo_env_def)
  have t: "target_samples ?p = 2" "gap_samples ?p = 1" by (simp_all add: demo_processor_def)
  show ?thesis
    using long_buffer_window_attempts [OF l s g n, of "''calibration''"]
    by (simp add: t demo_starts demo_pre demo_keep)
qed

end
